theory Spec2Isabelle
  imports Main "HOL-Library.Product_Lexorder" "HOL-Library.Multiset"
begin

section \<open>Board record storage (\<^verbatim>\<open>invokeai/app/services/board_record_storage.py\<close>)\<close>

text \<open>
  The module keeps board records in one SQLite table and reaches it through the
  \<^verbatim>\<open>sqlite3\<close> driver. The embedding makes the table, the driver calls and the
  environment explicit:
  \<^item> the table \<^verbatim>\<open>boards\<close> is a list of rows in rowid (insertion) order;
  \<^item> every \<^verbatim>\<open>cursor.execute\<close> is a function on the connection that may raise a
    \<^verbatim>\<open>sqlite3.Error\<close>, returned as \<open>Inl\<close>;
  \<^item> what the code reads from outside (the wall clock behind \<^verbatim>\<open>'NOW'\<close> and
    \<^verbatim>\<open>current_timestamp\<close>, the value of \<^verbatim>\<open>uuid.uuid4()\<close>, a fault of the database
    at a driver call) is an explicit environment argument of each operation;
  \<^item> the lock is acquired and released around every operation and is not modelled:
    the embedding is sequential.
\<close>

subsection \<open>Timestamps\<close>

text \<open>
  The timestamp columns hold text. Two formats are written by the schema:
  \<^verbatim>\<open>STRFTIME('%Y-%m-%d %H:%M:%f', 'NOW')\<close> gives \<^verbatim>\<open>YYYY-MM-DD HH:MM:SS.SSS\<close> and
  \<^verbatim>\<open>current_timestamp\<close> gives \<^verbatim>\<open>YYYY-MM-DD HH:MM:SS\<close>. A stored text is
  represented by its whole seconds and its optional millisecond field; the clock is a
  number of milliseconds.
\<close>

datatype timestamp = Timestamp (seconds: nat) (fraction: "nat option")

definition STRFTIME_f_NOW :: "nat \<Rightarrow> timestamp" where
  "STRFTIME_f_NOW t = Timestamp (t div 1000) (Some (t mod 1000))"

definition current_timestamp :: "nat \<Rightarrow> timestamp" where
  "current_timestamp t = Timestamp (t div 1000) None"

text \<open>
  Order of the stored texts (SQLite compares TEXT bytewise): both formats are of fixed
  width, so the texts compare by their seconds first; with equal seconds the text
  without a fraction is a proper prefix of the other and sorts before it.
\<close>

definition text_key :: "timestamp \<Rightarrow> nat \<times> nat" where
  "text_key ts = (seconds ts, case fraction ts of None \<Rightarrow> 0 | Some m \<Rightarrow> Suc m)"

text \<open>
  The instant a stored text denotes, in milliseconds: what a \<^verbatim>\<open>BoardRecord\<close> holds
  once pydantic has parsed the text into a \<^verbatim>\<open>datetime\<close>.
\<close>

definition datetime :: "timestamp \<Rightarrow> nat" where
  "datetime ts = seconds ts * 1000 + (case fraction ts of None \<Rightarrow> 0 | Some m \<Rightarrow> m)"

subsection \<open>Records\<close>

text \<open>\<^verbatim>\<open>BoardChanges\<close>: both fields are \<^verbatim>\<open>Optional[str]\<close>.\<close>

record BoardChanges =
  board_name :: "string option"
  cover_image_name :: "string option"

text \<open>\<^verbatim>\<open>BoardRecord\<close>; a row of the table has the column \<^verbatim>\<open>deleted_at\<close> besides.\<close>

record BoardRecord =
  board_id :: string
  board_name :: string
  created_at :: timestamp
  updated_at :: timestamp
  cover_image_name :: "string option"

record row = BoardRecord +
  deleted_at :: "timestamp option"

text \<open>
  \<^verbatim>\<open>BoardRecord(**dict(row))\<close>: the extra key \<^verbatim>\<open>deleted_at\<close> is ignored, the other
  columns are the fields.
\<close>

definition BoardRecord_of :: "row \<Rightarrow> BoardRecord" where
  "BoardRecord_of r =
     \<lparr>board_id = board_id r, board_name = BoardRecord.board_name r,
      created_at = created_at r, updated_at = updated_at r,
      cover_image_name = BoardRecord.cover_image_name r\<rparr>"



subsection \<open>Exceptions\<close>

text \<open>The subclasses of \<^verbatim>\<open>sqlite3.Error\<close> the driver raises.\<close>

datatype sqlite3_Error = OperationalError | ProgrammingError | IntegrityError

datatype error =
    BoardRecordNotFoundException
  | BoardRecordSaveException
  | BoardRecordDeleteException
  | Raw sqlite3_Error  \<comment> \<open>\<^verbatim>\<open>raise e\<close> in \<^verbatim>\<open>get_many\<close>\<close>
  | TypeError  \<comment> \<open>\<^verbatim>\<open>BoardRecord(**None)\<close> in \<^verbatim>\<open>save\<close>\<close>

subsection \<open>The connection and the environment\<close>

datatype statement =
    DELETE_FROM_boards
  | INSERT_OR_IGNORE_INTO_boards
  | SELECT_WHERE_board_id
  | UPDATE_SET_board_name
  | UPDATE_SET_cover_image_name
  | SELECT_ORDER_BY_updated_at
  | SELECT_COUNT

text \<open>
  \<open>boards\<close> is the table; \<open>executed\<close> lists the statements the cursor has run so
  far (a statement that raises is not listed).
\<close>

record connection =
  boards :: "row list"
  executed :: "statement list"

text \<open>
  The environment of one operation. \<open>fault e k\<close> is the error the database raises at
  the operation's \<open>k\<close>-th driver call in source order (\<open>None\<close>: the call goes through),
  \<open>clock e k\<close> the wall clock in milliseconds at that call, and \<open>uuid4 e\<close> the text of
  \<^verbatim>\<open>str(uuid.uuid4())\<close>.
\<close>

record env =
  uuid4 :: string
  clock :: "nat \<Rightarrow> nat"
  fault :: "nat \<Rightarrow> sqlite3_Error option"

subsection \<open>Parameter binding\<close>

text \<open>
  The second argument of \<^verbatim>\<open>cursor.execute\<close> is a sequence with one element for each
  \<^verbatim>\<open>?\<close> of the statement; any other length raises \<^verbatim>\<open>sqlite3.ProgrammingError\<close>
  ("Incorrect number of bindings supplied"). A tuple \<^verbatim>\<open>(a, b)\<close> is the list \<open>[a, b]\<close>.
  A \<^verbatim>\<open>str\<close> is a sequence too: its elements are its characters, each a \<^verbatim>\<open>str\<close> of
  length one. (\<open>string\<close> counts bytes where Python counts code points; the two agree
  on ASCII text such as a UUID.)
\<close>

definition str_sequence :: "string \<Rightarrow> string list" where
  "str_sequence s = map (\<lambda>ch. [ch]) s"

subsection \<open>The statements\<close>

text \<open>
  The trigger \<^verbatim>\<open>tg_boards_updated_at\<close>, run after the update of a row:
  \<^verbatim>\<open>UPDATE boards SET updated_at = current_timestamp WHERE board_id = old.board_id\<close>.
  (Triggers are not recursive by default, so its own update does not fire it again.)
\<close>

definition tg_boards_updated_at :: "nat \<Rightarrow> row \<Rightarrow> row" where
  "tg_boards_updated_at now r = r\<lparr>updated_at := current_timestamp now\<rparr>"

text \<open>\<^verbatim>\<open>DELETE FROM boards WHERE board_id = ?\<close>\<close>

fun execute_DELETE :: "sqlite3_Error option \<Rightarrow> string list \<Rightarrow> connection \<Rightarrow> sqlite3_Error + connection" where
  "execute_DELETE (Some err) ps c = Inl err"
| "execute_DELETE None [p] c =
     Inr (c\<lparr>boards := filter (\<lambda>r. board_id r \<noteq> p) (boards c),
            executed := executed c @ [DELETE_FROM_boards]\<rparr>)"
| "execute_DELETE None ps c = Inl ProgrammingError"

text \<open>
  \<^verbatim>\<open>INSERT OR IGNORE INTO boards (board_id, board_name) VALUES (?, ?)\<close>: a row whose
  primary key is taken is skipped; the other columns take their defaults, both timestamps
  from the same \<^verbatim>\<open>'NOW'\<close> of the statement.
\<close>

fun execute_INSERT :: "sqlite3_Error option \<Rightarrow> nat \<Rightarrow> string list \<Rightarrow> connection \<Rightarrow> sqlite3_Error + connection" where
  "execute_INSERT (Some err) now ps c = Inl err"
| "execute_INSERT None now [p1, p2] c =
     Inr (c\<lparr>boards :=
              (if p1 \<in> set (map board_id (boards c)) then boards c
               else boards c @
                 [\<lparr>board_id = p1, board_name = p2,
                   created_at = STRFTIME_f_NOW now, updated_at = STRFTIME_f_NOW now,
                   cover_image_name = None, deleted_at = None\<rparr>]),
            executed := executed c @ [INSERT_OR_IGNORE_INTO_boards]\<rparr>)"
| "execute_INSERT None now ps c = Inl ProgrammingError"

text \<open>\<^verbatim>\<open>SELECT * FROM boards WHERE board_id = ?\<close>; the result is what the cursor then holds.\<close>

fun execute_SELECT :: "sqlite3_Error option \<Rightarrow> string list \<Rightarrow> connection \<Rightarrow> sqlite3_Error + connection \<times> row list" where
  "execute_SELECT (Some err) ps c = Inl err"
| "execute_SELECT None [p] c =
     Inr (c\<lparr>executed := executed c @ [SELECT_WHERE_board_id]\<rparr>,
          filter (\<lambda>r. board_id r = p) (boards c))"
| "execute_SELECT None ps c = Inl ProgrammingError"

text \<open>\<^verbatim>\<open>UPDATE boards SET board_name = ? WHERE board_id = ?\<close>, with the trigger.\<close>

fun execute_UPDATE_board_name :: "sqlite3_Error option \<Rightarrow> nat \<Rightarrow> string list \<Rightarrow> connection \<Rightarrow> sqlite3_Error + connection" where
  "execute_UPDATE_board_name (Some err) now ps c = Inl err"
| "execute_UPDATE_board_name None now [p1, p2] c =
     Inr (c\<lparr>boards :=
              map (\<lambda>r. if board_id r = p2
                        then tg_boards_updated_at now (r\<lparr>board_name := p1\<rparr>) else r) (boards c),
            executed := executed c @ [UPDATE_SET_board_name]\<rparr>)"
| "execute_UPDATE_board_name None now ps c = Inl ProgrammingError"

text \<open>\<^verbatim>\<open>UPDATE boards SET cover_image_name = ? WHERE board_id = ?\<close>, with the trigger.\<close>

fun execute_UPDATE_cover_image_name :: "sqlite3_Error option \<Rightarrow> nat \<Rightarrow> string list \<Rightarrow> connection \<Rightarrow> sqlite3_Error + connection" where
  "execute_UPDATE_cover_image_name (Some err) now ps c = Inl err"
| "execute_UPDATE_cover_image_name None now [p1, p2] c =
     Inr (c\<lparr>boards :=
              map (\<lambda>r. if board_id r = p2
                        then tg_boards_updated_at now (r\<lparr>cover_image_name := Some p1\<rparr>) else r) (boards c),
            executed := executed c @ [UPDATE_SET_cover_image_name]\<rparr>)"
| "execute_UPDATE_cover_image_name None now ps c = Inl ProgrammingError"





text \<open>\<^verbatim>\<open>cursor.fetchone()\<close>: the first row of the result, or \<^verbatim>\<open>None\<close>.\<close>

fun fetchone :: "'a list \<Rightarrow> 'a option" where
  "fetchone [] = None"
| "fetchone (r # rs) = Some r"

text \<open>
  \<^verbatim>\<open>commit\<close> keeps the table as it is; \<^verbatim>\<open>rollback\<close> puts back the table of the last
  commit, which the caller passes. Every operation ends with one of the two, so at the
  start of an operation the table is the committed one.
\<close>

fun commit :: "sqlite3_Error option \<Rightarrow> connection \<Rightarrow> sqlite3_Error + connection" where
  "commit (Some err) c = Inl err"
| "commit None c = Inr c"

definition rollback :: "row list \<Rightarrow> connection \<Rightarrow> connection" where
  "rollback committed c = c\<lparr>boards := committed\<rparr>"


subsection \<open>The operations of \<^verbatim>\<open>SqliteBoardRecordStorage\<close>\<close>

text \<open>
  Each operation takes the environment and the connection and returns the connection
  after it with the outcome: \<open>Inr\<close> the value returned, \<open>Inl\<close> the exception raised.
\<close>

text \<open>
  \<^verbatim>\<open>delete\<close>: the parameters handed to \<^verbatim>\<open>execute\<close> are \<^verbatim>\<open>(board_id)\<close>, which is the
  string \<^verbatim>\<open>board_id\<close> itself and not a tuple.
\<close>

definition delete :: "env \<Rightarrow> connection \<Rightarrow> string \<Rightarrow> connection \<times> (error + unit)" where
  "delete e c bid =
     (case execute_DELETE (fault e 0) (str_sequence bid) c of
        Inl err \<Rightarrow> (rollback (boards c) c, Inl BoardRecordDeleteException)
      | Inr c1 \<Rightarrow>
          (case commit (fault e 1) c1 of
             Inl err \<Rightarrow> (rollback (boards c) c1, Inl BoardRecordDeleteException)
           | Inr c2 \<Rightarrow> (c2, Inr ())))"

definition save :: "env \<Rightarrow> connection \<Rightarrow> string \<Rightarrow> connection \<times> (error + BoardRecord)" where
  "save e c name =
     (let bid = uuid4 e in
      case execute_INSERT (fault e 0) (clock e 0) [bid, name] c of
        Inl err \<Rightarrow> (rollback (boards c) c, Inl BoardRecordSaveException)
      | Inr c1 \<Rightarrow>
          (case commit (fault e 1) c1 of
             Inl err \<Rightarrow> (rollback (boards c) c1, Inl BoardRecordSaveException)
           | Inr c2 \<Rightarrow>
               (case execute_SELECT (fault e 2) [bid] c2 of
                  Inl err \<Rightarrow> (rollback (boards c2) c2, Inl BoardRecordSaveException)
                | Inr (c3, result) \<Rightarrow>
                    (case fetchone result of
                       None \<Rightarrow> (c3, Inl TypeError)
                     | Some r \<Rightarrow> (c3, Inr (BoardRecord_of r))))))"

definition get :: "env \<Rightarrow> connection \<Rightarrow> string \<Rightarrow> connection \<times> (error + BoardRecord)" where
  "get e c bid =
     (case execute_SELECT (fault e 0) [bid] c of
        Inl err \<Rightarrow> (rollback (boards c) c, Inl BoardRecordNotFoundException)
      | Inr (c1, result) \<Rightarrow>
          (case fetchone result of
             None \<Rightarrow> (c1, Inl BoardRecordNotFoundException)
           | Some r \<Rightarrow> (c1, Inr (BoardRecord_of r))))"

text \<open>
  \<^verbatim>\<open>update\<close>: one statement for each field of the patch that \<^verbatim>\<open>is not None\<close>, then
  the commit.
\<close>

definition update :: "env \<Rightarrow> connection \<Rightarrow> string \<Rightarrow> BoardChanges \<Rightarrow> connection \<times> (error + unit)" where
  "update e c bid changes =
     (case (case BoardChanges.board_name changes of
              Some v \<Rightarrow> execute_UPDATE_board_name (fault e 0) (clock e 0) [v, bid] c
            | None \<Rightarrow> Inr c) of
        Inl err \<Rightarrow> (rollback (boards c) c, Inl BoardRecordSaveException)
      | Inr c1 \<Rightarrow>
          (case (case BoardChanges.cover_image_name changes of
                   Some v \<Rightarrow> execute_UPDATE_cover_image_name (fault e 1) (clock e 1) [v, bid] c1
                 | None \<Rightarrow> Inr c1) of
             Inl err \<Rightarrow> (rollback (boards c) c1, Inl BoardRecordSaveException)
           | Inr c2 \<Rightarrow>
               (case commit (fault e 2) c2 of
                  Inl err \<Rightarrow> (rollback (boards c) c2, Inl BoardRecordSaveException)
                | Inr c3 \<Rightarrow> (c3, Inr ()))))"


subsection \<open>Construction of a \<^verbatim>\<open>BoardChanges\<close>\<close>






subsection \<open>Sequences of calls\<close>

text \<open>
  A caller that issues \<^verbatim>\<open>update\<close> calls one after the other, each with its own
  environment, identifier and patch, whatever the outcome of the call before.
\<close>

fun updates :: "(env \<times> string \<times> BoardChanges) list \<Rightarrow> connection \<Rightarrow> connection" where
  "updates [] c = c"
| "updates ((e, bid, changes) # us) c = updates us (fst (update e c bid changes))"


section \<open>Auxiliary facts\<close>

lemma rollback_same [simp]: "rollback (boards c) c = c"
  by (simp add: rollback_def)

lemma boards_rollback [simp]: "boards (rollback bs c) = bs"
  by (simp add: rollback_def)

lemma str_sequence_length [simp]: "length (str_sequence s) = length s"
  by (simp add: str_sequence_def)

lemma filter_unknown:
  "b \<notin> set (map board_id rs) \<Longrightarrow> filter (\<lambda>r. board_id r = b) rs = []"
  by (induction rs) auto

lemma map_unmatched:
  "b \<notin> set (map board_id rs) \<Longrightarrow> map (\<lambda>r. if board_id r = b then f r else r) rs = rs"
  by (induction rs) auto



lemma fetchone_filter_related:
  assumes "list_all2 (\<lambda>r r'. board_id r' = board_id r \<and> P r r') rs rs'"
    and "fetchone (filter (\<lambda>r. board_id r = b) rs) = Some q"
  shows "\<exists>q'. fetchone (filter (\<lambda>r. board_id r = b) rs') = Some q' \<and> P q q'"
  using assms by (induction rule: list_all2_induct) (auto split: if_splits)

text \<open>The outcome of \<open>get\<close>, read off the table.\<close>

lemma get_eq:
  "snd (get e c bid) =
     (case fault e 0 of
        Some err \<Rightarrow> Inl BoardRecordNotFoundException
      | None \<Rightarrow>
          (case fetchone (filter (\<lambda>r. board_id r = bid) (boards c)) of
             None \<Rightarrow> Inl BoardRecordNotFoundException
           | Some r \<Rightarrow> Inr (BoardRecord_of r)))"
  by (cases "fault e 0") (simp_all add: get_def split: option.splits)

text \<open>
  A statement with one \<^verbatim>\<open>?\<close> raises unless exactly one parameter is bound, so
  \<open>delete\<close> raises on every identifier that is not a single character, and leaves the
  connection as it was.
\<close>

lemma execute_DELETE_bindings:
  "length ps \<noteq> 1 \<Longrightarrow> \<exists>err. execute_DELETE f ps c = Inl err"
  by (induction f ps c rule: execute_DELETE.induct) simp_all

lemma delete_raises:
  "length bid \<noteq> 1 \<Longrightarrow> delete e c bid = (c, Inl BoardRecordDeleteException)"
  using execute_DELETE_bindings [of "str_sequence bid" "fault e 0" c]
  by (auto simp: delete_def)

text \<open>On an identifier of one character the statement runs as written.\<close>

lemma delete_single_character:
  "fault e 0 = None \<Longrightarrow> fault e 1 = None \<Longrightarrow>
   delete e c [ch] =
     (c\<lparr>boards := filter (\<lambda>r. board_id r \<noteq> [ch]) (boards c),
        executed := executed c @ [DELETE_FROM_boards]\<rparr>, Inr ())"
  by (simp add: delete_def str_sequence_def)


text \<open>
  No \<open>update\<close> removes or reorders a row, changes a \<^verbatim>\<open>board_id\<close>, or turns a cover
  image that is set into \<^verbatim>\<open>NULL\<close>; hence no sequence of them does.
\<close>

lemma update_keeps_cover:
  "list_all2 (\<lambda>r r'. board_id r' = board_id r
                \<and> (cover_image_name r \<noteq> None \<longrightarrow> cover_image_name r' \<noteq> None))
     (boards c) (boards (fst (update e c bid changes)))"
  by (cases "fault e 0"; cases "fault e 1"; cases "fault e 2";
      cases "BoardChanges.board_name changes"; cases "BoardChanges.cover_image_name changes")
     (simp_all add: update_def list_all2_map2 list_all2_same tg_boards_updated_at_def)

lemma updates_keep_cover:
  "list_all2 (\<lambda>r r'. board_id r' = board_id r
                \<and> (cover_image_name r \<noteq> None \<longrightarrow> cover_image_name r' \<noteq> None))
     (boards c) (boards (updates us c))"
proof (induction us arbitrary: c)
  case Nil
  show ?case by (simp add: list_all2_same)
next
  case (Cons u us)
  obtain e bid changes where u: "u = (e, bid, changes)" by (cases u)
  show ?case
    unfolding u updates.simps
    by (rule list_all2_trans [OF _ update_keeps_cover Cons.IH]) simp
qed





section \<open>The claims\<close>

subsection \<open>\<^verbatim>\<open>delete\<close>\<close>

text \<open>
  C1. The spec: \<^verbatim>\<open>delete(board_id)\<close> on an identifier without a row succeeds without
  raising, and on an identifier with a row it removes the row, so that \<^verbatim>\<open>get\<close> then
  fails with the not-found error.

  The code does not do this. \<^verbatim>\<open>delete\<close> binds \<^verbatim>\<open>(board_id)\<close>, the string itself,
  where \<^verbatim>\<open>get\<close> and \<^verbatim>\<open>save\<close> bind the tuple \<^verbatim>\<open>(board_id,)\<close>. For an identifier
  of 36 characters, as \<^verbatim>\<open>save\<close> generates them, the driver is handed 36 parameters
  for one placeholder and raises; \<^verbatim>\<open>delete\<close> turns that into
  \<^verbatim>\<open>BoardRecordDeleteException\<close>. Below, a board is saved into an empty table and
  deleted by its identifier: the delete raises, the table is as before, and \<^verbatim>\<open>get\<close>
  still returns the record; the delete of an identifier that has no row raises too.
\<close>

theorem delete_of_saved_board_raises:
  "let u = ''8d3f0c1e-5b7a-4c2d-9e6f-1a2b3c4d5e6f'';
       e = \<lparr>uuid4 = u, clock = (\<lambda>k. 43200500), fault = (\<lambda>k. None)\<rparr>;
       (c1, saved) = save e \<lparr>boards = [], executed = []\<rparr> ''cats'';
       (c2, deleted) = delete e c1 u;
       (c3, got) = get e c2 u
   in saved = Inr \<lparr>board_id = u, board_name = ''cats'',
                   created_at = Timestamp 43200 (Some 500),
                   updated_at = Timestamp 43200 (Some 500), cover_image_name = None\<rparr>
      \<and> deleted = Inl BoardRecordDeleteException
      \<and> boards c2 = boards c1
      \<and> got = saved
      \<and> snd (delete e c1 ''0a1b2c3d-4e5f-4a6b-8c7d-9e0f1a2b3c4d'') = Inl BoardRecordDeleteException"
  by (simp add: Let_def save_def delete_def get_def str_sequence_def STRFTIME_f_NOW_def
      BoardRecord_of_def rollback_def)

subsection \<open>The timestamps of a row\<close>

text \<open>
  C2. The spec: \<^verbatim>\<open>created_at\<close> \<open>\<le>\<close> \<^verbatim>\<open>updated_at\<close> for every row after every sequence
  of save and update operations, also right after the trigger has refreshed
  \<^verbatim>\<open>updated_at\<close>.

  The code does not keep this. The column defaults write the time with milliseconds
  (\<^verbatim>\<open>%f\<close>), the trigger writes \<^verbatim>\<open>current_timestamp\<close>, which stops at the second.
  A board saved at 12:00:00.500 and renamed at 12:00:00.700, with a clock that only
  moves forward, has \<^verbatim>\<open>created_at\<close> 12:00:00.500 and \<^verbatim>\<open>updated_at\<close> 12:00:00:
  \<^verbatim>\<open>updated_at\<close> is the earlier one, as an instant and as the stored text.
\<close>

theorem updated_at_before_created_at:
  "let u = ''8d3f0c1e-5b7a-4c2d-9e6f-1a2b3c4d5e6f'';
       e1 = \<lparr>uuid4 = u, clock = (\<lambda>k. 43200500), fault = (\<lambda>k. None)\<rparr>;
       e2 = e1\<lparr>clock := (\<lambda>k. 43200700)\<rparr>;
       (c1, saved) = save e1 \<lparr>boards = [], executed = []\<rparr> ''cats'';
       (c2, updated) = update e2 c1 u
          \<lparr>BoardChanges.board_name = Some ''dogs'', BoardChanges.cover_image_name = None\<rparr>;
       (c3, got) = get e2 c2 u
   in updated = Inr ()
      \<and> got = Inr \<lparr>board_id = u, board_name = ''dogs'',
                   created_at = Timestamp 43200 (Some 500),
                   updated_at = Timestamp 43200 None, cover_image_name = None\<rparr>
      \<and> datetime (Timestamp 43200 None) < datetime (Timestamp 43200 (Some 500))
      \<and> text_key (Timestamp 43200 None) < text_key (Timestamp 43200 (Some 500))"
  by (simp add: Let_def save_def update_def get_def STRFTIME_f_NOW_def current_timestamp_def
      tg_boards_updated_at_def BoardRecord_of_def datetime_def text_key_def)

subsection \<open>\<^verbatim>\<open>save\<close>\<close>



subsection \<open>\<^verbatim>\<open>update\<close>\<close>




text \<open>
  C5. For an identifier without a row, \<^verbatim>\<open>update\<close> leaves the table as it is, whatever
  the patch (and whatever the database does); if the database raises no error, the call
  returns without raising.
\<close>

theorem update_unknown_id:
  assumes "bid \<notin> set (map board_id (boards c))"
  shows "boards (fst (update e c bid changes)) = boards c
         \<and> (fault e 0 = None \<and> fault e 1 = None \<and> fault e 2 = None
              \<longrightarrow> snd (update e c bid changes) = Inr ())"
  using assms
  by (cases "fault e 0"; cases "fault e 1"; cases "fault e 2";
      cases "BoardChanges.board_name changes"; cases "BoardChanges.cover_image_name changes")
     (simp_all add: update_def map_unmatched)

text \<open>C5, at a table with one board and a patch with both fields.\<close>

theorem update_unknown_id_witness:
  "update \<lparr>uuid4 = [], clock = (\<lambda>k. 43201700), fault = (\<lambda>k. None)\<rparr>
      \<lparr>boards = [\<lparr>board_id = ''8d3f0c1e-5b7a-4c2d-9e6f-1a2b3c4d5e6f'', board_name = ''cats'',
                   created_at = Timestamp 43200 (Some 500), updated_at = Timestamp 43200 (Some 500),
                   cover_image_name = None, deleted_at = None\<rparr>],
        executed = []\<rparr>
      ''0a1b2c3d-4e5f-4a6b-8c7d-9e0f1a2b3c4d''
      \<lparr>BoardChanges.board_name = Some ''X'', BoardChanges.cover_image_name = Some ''x.png''\<rparr>
   = (\<lparr>boards = [\<lparr>board_id = ''8d3f0c1e-5b7a-4c2d-9e6f-1a2b3c4d5e6f'', board_name = ''cats'',
                   created_at = Timestamp 43200 (Some 500), updated_at = Timestamp 43200 (Some 500),
                   cover_image_name = None, deleted_at = None\<rparr>],
        executed = [UPDATE_SET_board_name, UPDATE_SET_cover_image_name]\<rparr>, Inr ())"
proof -
  let ?e = "\<lparr>uuid4 = [], clock = (\<lambda>k. 43201700), fault = (\<lambda>k. None)\<rparr>"
  let ?c = "\<lparr>boards = [\<lparr>board_id = ''8d3f0c1e-5b7a-4c2d-9e6f-1a2b3c4d5e6f'', board_name = ''cats'',
                   created_at = Timestamp 43200 (Some 500), updated_at = Timestamp 43200 (Some 500),
                   cover_image_name = None, deleted_at = None\<rparr>],
        executed = []\<rparr>"
  let ?ch = "\<lparr>BoardChanges.board_name = Some ''X'', BoardChanges.cover_image_name = Some ''x.png''\<rparr>"
  have h: "''0a1b2c3d-4e5f-4a6b-8c7d-9e0f1a2b3c4d'' \<notin> set (map board_id (boards ?c))"
    by simp
  have ex: "executed (fst (update ?e ?c ''0a1b2c3d-4e5f-4a6b-8c7d-9e0f1a2b3c4d'' ?ch))
            = [UPDATE_SET_board_name, UPDATE_SET_cover_image_name]"
    by (simp add: update_def)
  have "boards (fst (update ?e ?c ''0a1b2c3d-4e5f-4a6b-8c7d-9e0f1a2b3c4d'' ?ch)) = boards ?c"
    and "snd (update ?e ?c ''0a1b2c3d-4e5f-4a6b-8c7d-9e0f1a2b3c4d'' ?ch) = Inr ()"
    using update_unknown_id [OF h, of ?e ?ch] by simp_all
  with ex show ?thesis
    by (cases "update ?e ?c ''0a1b2c3d-4e5f-4a6b-8c7d-9e0f1a2b3c4d'' ?ch";
        cases "fst (update ?e ?c ''0a1b2c3d-4e5f-4a6b-8c7d-9e0f1a2b3c4d'' ?ch)") simp
qed

text \<open>
  C9. A patch with both fields absent runs no statement: whatever the identifier, the
  clock and the database do, the connection after the call is the connection before it.
  So no row has changed, \<^verbatim>\<open>updated_at\<close> included, no \<^verbatim>\<open>UPDATE\<close> has been executed
  (the trigger had nothing to fire on), and \<^verbatim>\<open>get\<close> returns what it returned before.
\<close>

theorem update_empty_patch:
  "fst (update e c bid \<lparr>BoardChanges.board_name = None, BoardChanges.cover_image_name = None\<rparr>) = c
   \<and> boards (fst (update e c bid
        \<lparr>BoardChanges.board_name = None, BoardChanges.cover_image_name = None\<rparr>)) = boards c
   \<and> executed (fst (update e c bid
        \<lparr>BoardChanges.board_name = None, BoardChanges.cover_image_name = None\<rparr>)) = executed c
   \<and> get e' (fst (update e c bid
        \<lparr>BoardChanges.board_name = None, BoardChanges.cover_image_name = None\<rparr>)) bid = get e' c bid"
  by (cases "fault e 2") (simp_all add: update_def)

subsection \<open>\<^verbatim>\<open>get\<close>\<close>

text \<open>
  C6. \<^verbatim>\<open>get(id)\<close> raises \<^verbatim>\<open>BoardRecordNotFoundException\<close> when no row has the
  identifier, raises the same exception when the lookup raises a database error, and
  raises nothing else.
\<close>

theorem get_raises_only_not_found:
  "(bid \<notin> set (map board_id (boards c))
      \<longrightarrow> snd (get e c bid) = Inl BoardRecordNotFoundException)
   \<and> (fault e 0 \<noteq> None \<longrightarrow> snd (get e c bid) = Inl BoardRecordNotFoundException)
   \<and> (\<forall>err. snd (get e c bid) = Inl err \<longrightarrow> err = BoardRecordNotFoundException)"
  by (auto simp: get_eq filter_unknown split: option.splits)

text \<open>
  C6, at an identifier without a row, and at an identifier with a row when the lookup
  raises \<^verbatim>\<open>OperationalError\<close>.
\<close>

theorem get_raises_only_not_found_witness:
  "snd (get \<lparr>uuid4 = [], clock = (\<lambda>k. 0), fault = (\<lambda>k. None)\<rparr>
          \<lparr>boards = [], executed = []\<rparr> ''8d3f0c1e-5b7a-4c2d-9e6f-1a2b3c4d5e6f'')
     = Inl BoardRecordNotFoundException
   \<and> snd (get \<lparr>uuid4 = [], clock = (\<lambda>k. 0), fault = (\<lambda>k. Some OperationalError)\<rparr>
          \<lparr>boards = [\<lparr>board_id = ''8d3f0c1e-5b7a-4c2d-9e6f-1a2b3c4d5e6f'', board_name = ''cats'',
                       created_at = Timestamp 43200 (Some 500),
                       updated_at = Timestamp 43200 (Some 500), cover_image_name = None,
                       deleted_at = None\<rparr>], executed = []\<rparr>
          ''8d3f0c1e-5b7a-4c2d-9e6f-1a2b3c4d5e6f'')
     = Inl BoardRecordNotFoundException"
proof -
  let ?u = "''8d3f0c1e-5b7a-4c2d-9e6f-1a2b3c4d5e6f''"
  let ?e1 = "\<lparr>uuid4 = [], clock = (\<lambda>k. 0), fault = (\<lambda>k. None)\<rparr>"
  let ?c1 = "\<lparr>boards = [], executed = []\<rparr>"
  let ?e2 = "\<lparr>uuid4 = [], clock = (\<lambda>k. 0), fault = (\<lambda>k. Some OperationalError)\<rparr>"
  let ?c2 = "\<lparr>boards = [\<lparr>board_id = ?u, board_name = ''cats'',
                       created_at = Timestamp 43200 (Some 500),
                       updated_at = Timestamp 43200 (Some 500), cover_image_name = None,
                       deleted_at = None\<rparr>], executed = []\<rparr>"
  have h1: "?u \<notin> set (map board_id (boards ?c1))" by simp
  have h2: "fault ?e2 0 \<noteq> None" by simp
  show ?thesis
    using get_raises_only_not_found [of ?u ?c1 ?e1] h1
      get_raises_only_not_found [of ?u ?c2 ?e2] h2
    by blast
qed

subsection \<open>\<^verbatim>\<open>get_many\<close>\<close>



subsection \<open>\<^verbatim>\<open>BoardChanges\<close>\<close>




subsection \<open>The cover image cannot be cleared\<close>

text \<open>
  C10. If \<^verbatim>\<open>get\<close> returns a board with a cover image, then after any sequence of
  \<^verbatim>\<open>update\<close> calls (any identifiers, patches, clocks and database faults) \<^verbatim>\<open>get\<close>
  still returns a board with a cover image. The reason is that a patch field that is
  \<^verbatim>\<open>None\<close> is skipped: an \<^verbatim>\<open>update\<close> whose patch has no cover image leaves the
  \<^verbatim>\<open>cover_image_name\<close> of every row as it is.
\<close>

theorem cover_image_name_never_reset:
  assumes "snd (get e0 c b) = Inr r" and "cover_image_name r \<noteq> None" and "fault e' 0 = None"
  shows "(\<exists>r'. snd (get e' (updates us c) b) = Inr r' \<and> cover_image_name r' \<noteq> None)
         \<and> map cover_image_name
             (boards (fst (update e c bid
                \<lparr>BoardChanges.board_name = n, BoardChanges.cover_image_name = None\<rparr>)))
           = map cover_image_name (boards c)"
proof
  obtain q where q: "fetchone (filter (\<lambda>r. board_id r = b) (boards c)) = Some q"
    and r: "r = BoardRecord_of q"
    using assms(1) by (auto simp: get_eq split: option.splits)
  from fetchone_filter_related [OF updates_keep_cover q]
  obtain q' where "fetchone (filter (\<lambda>r. board_id r = b) (boards (updates us c))) = Some q'"
    and "cover_image_name q \<noteq> None \<longrightarrow> cover_image_name q' \<noteq> None"
    by blast
  then show "\<exists>r'. snd (get e' (updates us c) b) = Inr r' \<and> cover_image_name r' \<noteq> None"
    using assms(2,3) r by (simp add: get_eq BoardRecord_of_def)
next
  show "map cover_image_name
             (boards (fst (update e c bid
                \<lparr>BoardChanges.board_name = n, BoardChanges.cover_image_name = None\<rparr>)))
           = map cover_image_name (boards c)"
    by (cases "fault e 0"; cases "fault e 2"; cases n)
       (simp_all add: update_def tg_boards_updated_at_def comp_def)
qed

text \<open>
  C10, at a board with the cover image \<^verbatim>\<open>cat.png\<close> and three updates of it: the empty
  patch, a patch with a new name, and a patch with a new cover image.
\<close>

theorem cover_image_name_never_reset_witness:
  "\<exists>r'. snd (get \<lparr>uuid4 = [], clock = (\<lambda>k. 43201700), fault = (\<lambda>k. None)\<rparr>
          (updates
             [(\<lparr>uuid4 = [], clock = (\<lambda>k. 43201700), fault = (\<lambda>k. None)\<rparr>,
               ''8d3f0c1e-5b7a-4c2d-9e6f-1a2b3c4d5e6f'',
               \<lparr>BoardChanges.board_name = None, BoardChanges.cover_image_name = None\<rparr>),
              (\<lparr>uuid4 = [], clock = (\<lambda>k. 43201700), fault = (\<lambda>k. None)\<rparr>,
               ''8d3f0c1e-5b7a-4c2d-9e6f-1a2b3c4d5e6f'',
               \<lparr>BoardChanges.board_name = Some ''dogs'', BoardChanges.cover_image_name = None\<rparr>),
              (\<lparr>uuid4 = [], clock = (\<lambda>k. 43201700), fault = (\<lambda>k. None)\<rparr>,
               ''8d3f0c1e-5b7a-4c2d-9e6f-1a2b3c4d5e6f'',
               \<lparr>BoardChanges.board_name = None, BoardChanges.cover_image_name = Some ''dog.png''\<rparr>)]
             \<lparr>boards = [\<lparr>board_id = ''8d3f0c1e-5b7a-4c2d-9e6f-1a2b3c4d5e6f'', board_name = ''cats'',
                          created_at = Timestamp 43200 (Some 500),
                          updated_at = Timestamp 43200 (Some 500),
                          cover_image_name = Some ''cat.png'', deleted_at = None\<rparr>],
               executed = []\<rparr>)
          ''8d3f0c1e-5b7a-4c2d-9e6f-1a2b3c4d5e6f'') = Inr r'
     \<and> cover_image_name r' \<noteq> None"
proof -
  let ?e = "\<lparr>uuid4 = [], clock = (\<lambda>k. 43201700), fault = (\<lambda>k. None)\<rparr>"
  let ?u = "''8d3f0c1e-5b7a-4c2d-9e6f-1a2b3c4d5e6f''"
  let ?c = "\<lparr>boards = [\<lparr>board_id = ?u, board_name = ''cats'',
                          created_at = Timestamp 43200 (Some 500),
                          updated_at = Timestamp 43200 (Some 500),
                          cover_image_name = Some ''cat.png'', deleted_at = None\<rparr>],
               executed = []\<rparr>"
  let ?r = "\<lparr>board_id = ?u, board_name = ''cats'', created_at = Timestamp 43200 (Some 500),
             updated_at = Timestamp 43200 (Some 500), cover_image_name = Some ''cat.png''\<rparr>"
  have h: "snd (get ?e ?c ?u) = Inr ?r" "cover_image_name ?r \<noteq> None" "fault ?e 0 = None"
    by (simp_all add: get_def BoardRecord_of_def)
  from cover_image_name_never_reset [OF h]
  show ?thesis by blast
qed

end
